theory Spec2Isabelle
  imports Main
begin

section \<open>JavaScript values\<close>

text \<open>
  The option bags of a connection are typed \<^verbatim>\<open>{ [name: string]: any }\<close>. The values the
  sources put there are strings, a number (an endpoint's port) and \<^verbatim>\<open>undefined\<close>.
  Numbers are the integers; \<^verbatim>\<open>NaN\<close> and fractions do not occur.
\<close>

datatype jsval = JUndefined | JNull | JStr string | JNum int | JBool bool

text \<open>What \<^verbatim>\<open>if (v)\<close>, \<^verbatim>\<open>!v\<close> and \<^verbatim>\<open>v || d\<close> test.\<close>

definition truthy :: "jsval \<Rightarrow> bool" where
  "truthy v =
     (case v of
        JUndefined \<Rightarrow> False
      | JNull \<Rightarrow> False
      | JStr s \<Rightarrow> s \<noteq> []
      | JNum n \<Rightarrow> n \<noteq> 0
      | JBool b \<Rightarrow> b)"

text \<open>\<^verbatim>\<open>a || b\<close>\<close>

definition js_or :: "jsval \<Rightarrow> jsval \<Rightarrow> jsval" where
  "js_or a b = (if truthy a then a else b)"

fun show_nat :: "nat \<Rightarrow> string" where
  "show_nat n =
     (if n < 10 then [''0123456789'' ! n]
      else show_nat (n div 10) @ [''0123456789'' ! (n mod 10)])"

declare show_nat.simps [simp del]

text \<open>
  The conversion a template literal \<^verbatim>\<open>`${v}`\<close> applies. An integer is printed in full; the
  exponent form that JavaScript uses from \<^verbatim>\<open>1e21\<close> on is not modelled (no port is that large).
\<close>

definition js_string :: "jsval \<Rightarrow> string" where
  "js_string v =
     (case v of
        JUndefined \<Rightarrow> ''undefined''
      | JNull \<Rightarrow> ''null''
      | JStr s \<Rightarrow> s
      | JNum n \<Rightarrow> (if n < 0 then ''-'' @ show_nat (nat (- n)) else show_nat (nat n))
      | JBool b \<Rightarrow> (if b then ''true'' else ''false''))"

text \<open>
  An option bag. A key that is absent and a key that holds \<^verbatim>\<open>undefined\<close> read the same
  under \<^verbatim>\<open>options[e]\<close>.
\<close>

type_synonym options = "string \<rightharpoonup> jsval"

definition opt_get :: "options \<Rightarrow> string \<Rightarrow> jsval" where
  "opt_get os e = (case os e of None \<Rightarrow> JUndefined | Some v \<Rightarrow> v)"

text \<open>
  What the code can throw or reject with: \<^verbatim>\<open>new Error(msg)\<close>, the \<^verbatim>\<open>TypeError\<close> of a
  property read on \<^verbatim>\<open>undefined\<close>, and a promise rejected with a plain string.
\<close>

datatype failure = Error string | TypeError | Reason string


section \<open>Constants (constants.ts)\<close>

definition hostPropName :: string where "hostPropName = ''host''"
definition userPropName :: string where "userPropName = ''user''"
definition knoxPortPropName :: string where "knoxPortPropName = ''knoxport''"
definition clusterPropName :: string where "clusterPropName = ''clustername''"
definition passwordPropName :: string where "passwordPropName = ''password''"
definition groupIdPropName :: string where "groupIdPropName = ''groupId''"
definition defaultKnoxPort :: string where "defaultKnoxPort = ''30443''"

lemmas prop_names =
  hostPropName_def userPropName_def knoxPortPropName_def passwordPropName_def


section \<open>Connection objects and SqlClusterConnection (connection.ts)\<close>

text \<open>
  One record for both shapes the constructor accepts, \<^verbatim>\<open>sqlops.IConnectionProfile\<close> and
  \<^verbatim>\<open>sqlops.connection.Connection\<close>. The code tells them apart by \<^verbatim>\<open>'id' in connectionInfo\<close>,
  so \<open>id_prop\<close> is \<open>None\<close> when the object has no property \<^verbatim>\<open>id\<close>. \<open>options\<close> is \<open>None\<close>
  when the object's \<^verbatim>\<open>options\<close> is \<^verbatim>\<open>undefined\<close>.
\<close>

record conn_obj =
  providerName :: jsval
  id_prop :: "jsval option"
  connectionId :: jsval
  options :: "options option"
  serverName :: jsval
  userName :: jsval
  password :: jsval

record sql_cluster_connection =
  priv_sqlClusterConnInfo :: conn_obj
  priv_sqlClusterConnProfile :: conn_obj
  priv_host :: jsval
  priv_port :: jsval
  priv_user :: jsval
  priv_pass :: jsval

text \<open>
  \<^verbatim>\<open>connectionInfo && connectionInfo.options && [host, knoxport, user, password]
       .every(e => connectionInfo.options[e] !== undefined)\<close>
\<close>

definition isValid :: "conn_obj option \<Rightarrow> bool" where
  "isValid connectionInfo =
     (case connectionInfo of
        None \<Rightarrow> False
      | Some ci \<Rightarrow>
          (case options ci of
             None \<Rightarrow> False
           | Some os \<Rightarrow>
               list_all (\<lambda>e. opt_get os e \<noteq> JUndefined)
                 [hostPropName, knoxPortPropName, userPropName, passwordPropName]))"

text \<open>
  The constructor. In the profile branch \<^verbatim>\<open>Object.assign\<close> writes \<^verbatim>\<open>connectionId\<close> into the
  profile itself, and both private fields are that one object. In the other branch the
  profile is a new object: a copy of the connection with four properties added.
\<close>

definition new_SqlClusterConnection :: "conn_obj option \<Rightarrow> failure + sql_cluster_connection" where
  "new_SqlClusterConnection connectionInfo =
     (if \<not> isValid connectionInfo then Inl (Error ''Invalid ConnectionInfo is provided.'')
      else
        (case connectionInfo of
           None \<Rightarrow> Inl TypeError
         | Some ci \<Rightarrow>
             (let (info, profile) =
                (case id_prop ci of
                   Some i \<Rightarrow> (let p = ci\<lparr>connectionId := i\<rparr> in (p, p))
                 | None \<Rightarrow>
                     (case options ci of
                        None \<Rightarrow> (ci, ci)
                      | Some os \<Rightarrow>
                          (ci,
                           ci\<lparr>serverName :=
                                 JStr (js_string (opt_get os hostPropName) @ '','' @
                                       js_string (opt_get os knoxPortPropName)),
                              userName := opt_get os userPropName,
                              password := opt_get os passwordPropName,
                              id_prop := Some (connectionId ci)\<rparr>)))
              in
                (case options info of
                   None \<Rightarrow> Inl TypeError
                 | Some os \<Rightarrow>
                     Inr \<lparr>priv_sqlClusterConnInfo = info,
                          priv_sqlClusterConnProfile = profile,
                          priv_host = opt_get os hostPropName,
                          priv_port = opt_get os knoxPortPropName,
                          priv_user = opt_get os userPropName,
                          priv_pass = opt_get os passwordPropName\<rparr>))))"

text \<open>The getters.\<close>

definition host :: "sql_cluster_connection \<Rightarrow> jsval" where
  "host this = priv_host this"

definition port :: "sql_cluster_connection \<Rightarrow> jsval" where
  "port this = js_or (priv_port this) (JStr defaultKnoxPort)"

definition user :: "sql_cluster_connection \<Rightarrow> jsval" where
  "user this = priv_user this"

definition pass :: "sql_cluster_connection \<Rightarrow> jsval" where
  "pass this = priv_pass this"

text \<open>
  \<^verbatim>\<open>isMatch(obj: SqlClusterConnection | sqlops.ConnectionInfo)\<close>. A connection info has the
  property \<^verbatim>\<open>options\<close>, a SqlClusterConnection has not and is read through its private
  connection info. Reading a key of an \<^verbatim>\<open>undefined\<close> bag throws.
\<close>

datatype match_arg = OtherConnection sql_cluster_connection | ConnectionInfo conn_obj

definition isMatch :: "sql_cluster_connection \<Rightarrow> match_arg option \<Rightarrow> failure + bool" where
  "isMatch this obj =
     (case obj of
        None \<Rightarrow> Inr False
      | Some a \<Rightarrow>
          (case (case a of
                   ConnectionInfo ci \<Rightarrow> options ci
                 | OtherConnection c \<Rightarrow> options (priv_sqlClusterConnInfo c)) of
             None \<Rightarrow> Inl TypeError
           | Some options1 \<Rightarrow>
               (case options (priv_sqlClusterConnInfo this) of
                  None \<Rightarrow> Inl TypeError
                | Some options2 \<Rightarrow>
                    Inr (list_all (\<lambda>e. opt_get options1 e = opt_get options2 e)
                           [hostPropName, knoxPortPropName, userPropName]))))"


section \<open>Tree nodes (connection.ts, the object explorer part)\<close>

definition objectExplorerPrefix :: string where
  "objectExplorerPrefix = ''objectexplorer://''"

text \<open>
  Modelled from the spec: the class \<^verbatim>\<open>Connection\<close> of connectionProvider.ts is not under
  src/. The provider reads two things of it, the session key \<^verbatim>\<open>uri\<close> (``a unique URI-like
  identifier derived from the connection'') and \<^verbatim>\<open>host\<close>; the record holds those two.
\<close>

record connection =
  conn_uri :: string
  conn_host :: string

text \<open>\<^verbatim>\<open>sqlops.NodeInfo\<close>, with the fields \<^verbatim>\<open>RootNode.getNodeInfo\<close> fills.\<close>

record node_info =
  label :: string
  isLeaf :: bool
  errorMessage :: "string option"
  metadata :: jsval
  nodePath :: string
  nodeStatus :: jsval
  nodeType :: string
  nodeSubType :: "string option"
  iconType :: string

text \<open>
  Modelled from the spec: the class \<^verbatim>\<open>ConnectionNode\<close> (hdfsProvider.ts) and the file
  sources are not under src/. The record holds what \<^verbatim>\<open>RootNode.getChildren\<close> gives the
  node: the label, the file source and the parent. The file source is ``an opaque
  capability''; it is represented by the connection that created it.

  Objects that the code compares or shares by reference carry a reference: a number
  that the allocation counter hands out once.
\<close>

record connection_node =
  cn_ref :: nat
  cn_label :: string
  cn_fileSource :: connection
  cn_parent :: "nat option"

record children_array =
  arr_ref :: nat
  arr_items :: "connection_node list"

text \<open>
  \<^verbatim>\<open>RootNode\<close>. Its \<^verbatim>\<open>_session\<close> is read for \<^verbatim>\<open>session.uri\<close> and \<^verbatim>\<open>session.connection\<close> only,
  and a session's connection never changes: the field holds that connection.
  \<open>rn_children\<close> is \<open>None\<close> while \<^verbatim>\<open>this.children\<close> is \<^verbatim>\<open>undefined\<close>.
\<close>

record root_node =
  rn_ref :: nat
  rn_session :: connection
  rn_children :: "children_array option"

definition nodePathValue :: "root_node \<Rightarrow> string" where
  "nodePathValue this = conn_uri (rn_session this)"

text \<open>
  Modelled from the spec: \<^verbatim>\<open>TreeNode.generateNodePath\<close> (treeNodes.ts) is not under src/.
  ``A node's path is the concatenation of its ancestors' path segments'': the root has
  no parent, so its path is its own segment.
\<close>

definition generateNodePath :: "root_node \<Rightarrow> string" where
  "generateNodePath this = nodePathValue this"

definition RootNode_createHdfsFileSource :: "root_node \<Rightarrow> connection" where
  "RootNode_createHdfsFileSource this = rn_session this"

text \<open>
  \<^verbatim>\<open>RootNode.getChildren(refreshChildren)\<close>. The third argument is the allocation counter:
  the new array takes the first free reference and the new node the next. The result is
  what \<^verbatim>\<open>return this.children\<close> reads, the node after the call and the counter.
\<close>

definition RootNode_getChildren ::
  "bool \<Rightarrow> root_node \<Rightarrow> nat \<Rightarrow> children_array option \<times> root_node \<times> nat" where
  "RootNode_getChildren refreshChildren this fresh =
     (let (this', fresh') =
        (if refreshChildren \<or> rn_children this = None then
           (let children = \<lparr>arr_ref = fresh, arr_items = []\<rparr>;
                hdfsNode = \<lparr>cn_ref = fresh + 1, cn_label = ''HDFS'',
                            cn_fileSource = RootNode_createHdfsFileSource this,
                            cn_parent = None\<rparr>;
                hdfsNode = hdfsNode\<lparr>cn_parent := Some (rn_ref this)\<rparr>;
                children = children\<lparr>arr_items := arr_items children @ [hdfsNode]\<rparr>
            in (this\<lparr>rn_children := Some children\<rparr>, fresh + 2))
         else (this, fresh))
      in (rn_children this', this', fresh'))"

definition RootNode_getNodeInfo :: "root_node \<Rightarrow> node_info" where
  "RootNode_getNodeInfo this =
     \<lparr>label = conn_host (rn_session this),
      isLeaf = False,
      errorMessage = None,
      metadata = JUndefined,
      nodePath = generateNodePath this,
      nodeStatus = JUndefined,
      nodeType = ''hadoop:root'',
      nodeSubType = None,
      iconType = ''root''\<rparr>"

text \<open>\<^verbatim>\<open>Session\<close>: \<open>sess_root\<close> is the reference of its root node, once assigned.\<close>

record session =
  sess_connection :: connection
  sess_root :: "nat option"

definition uri :: "session \<Rightarrow> string" where
  "uri this = conn_uri (sess_connection this)"


section \<open>The Object Explorer provider (connection.ts, the object explorer part)\<close>

record object_explorer_session =
  oes_sessionId :: string
  oes_success :: bool
  oes_rootNode :: "node_info option"
  oes_errorMessage :: "string option"

record expand_node_info =
  eni_sessionId :: string
  eni_nodePath :: string

record expand_info =
  oei_sessionId :: string
  oei_nodePath :: string
  oei_errorMessage :: "string option"
  oei_nodes :: "node_info list option"

record close_session_response =
  csr_success :: bool
  csr_sessionId :: string

text \<open>What the two emitters fire, in the order fired.\<close>

datatype event = SessionCreated object_explorer_session | ExpandCompleted expand_info

text \<open>
  The three callbacks the provider hands to \<^verbatim>\<open>setTimeout(..., 10)\<close>, each with the
  variables its closure captures.
\<close>

datatype task =
    CreateSessionTimer connection
  | SessionNotFoundTimer expand_node_info
  | StartExpansionTimer session expand_node_info bool

text \<open>
  The provider: the session map, the heap of root nodes by reference, the allocation
  counter, the timers not yet fired (oldest first: all have the same delay) and the
  events fired so far.
\<close>

record provider =
  sessionMap :: "string \<rightharpoonup> session"
  roots :: "nat \<rightharpoonup> root_node"
  fresh :: nat
  timers :: "task list"
  emitted :: "event list"

definition new_provider :: provider where
  "new_provider = \<lparr>sessionMap = Map.empty, roots = Map.empty, fresh = 0, timers = [], emitted = []\<rparr>"

text \<open>
  What \<^verbatim>\<open>findNodeByPath\<close> finds: the root itself, or another tree node (a class outside
  src/), given by what the provider reads of it: the error message of its node info, and
  the node infos of the children \<^verbatim>\<open>getChildren(true)\<close> returns (none when it returns
  \<^verbatim>\<open>undefined\<close>) or what it threw.
\<close>

datatype found_node = FoundRoot | FoundOther "string option" "failure + node_info list"

text \<open>
  The code outside src/ that the provider calls, as parameters:
  \<^item> \<open>newConnection\<close>: \<^verbatim>\<open>new Connection(connInfo)\<close> followed by
    \<^verbatim>\<open>saveUriWithPrefix(objectExplorerPrefix)\<close>, or what they throw;
  \<^item> \<open>findNodeByPath\<close>: \<^verbatim>\<open>TreeNode.findNodeByPath\<close> from a root, or what it throws;
  \<^item> \<open>connectionNodeInfo\<close>: \<^verbatim>\<open>ConnectionNode.getNodeInfo\<close>;
  \<^item> \<open>getErrorMessage\<close>: \<^verbatim>\<open>utils.getErrorMessage\<close>.
\<close>

record env =
  newConnection :: "conn_obj option \<Rightarrow> failure + connection"
  findNodeByPath :: "root_node \<Rightarrow> string \<Rightarrow> failure + found_node option"
  connectionNodeInfo :: "connection_node \<Rightarrow> node_info"
  getErrorMessage :: "failure \<Rightarrow> string"

text \<open>
  \<^verbatim>\<open>localize(key, message, arg)\<close> of vscode-nls with no translation loaded: the message
  with each \<^verbatim>\<open>{0}\<close> replaced by the argument.
\<close>

fun localize :: "string \<Rightarrow> string \<Rightarrow> string" where
  "localize [] arg = []"
| "localize (c # cs) arg =
     (if take 3 (c # cs) = ''{0}'' then arg @ localize (drop 2 cs) arg
      else c # localize cs arg)"

definition sendSessionCreated :: "object_explorer_session \<Rightarrow> provider \<Rightarrow> provider" where
  "sendSessionCreated sessionInfo s = s\<lparr>emitted := emitted s @ [SessionCreated sessionInfo]\<rparr>"

definition handleSessionFailed :: "object_explorer_session \<Rightarrow> provider \<Rightarrow> provider" where
  "handleSessionFailed sessionInfo s =
     sendSessionCreated sessionInfo
       (s\<lparr>sessionMap := (sessionMap s)(oes_sessionId sessionInfo := None)\<rparr>)"

definition expandCompleteEmitter_fire :: "expand_info \<Rightarrow> provider \<Rightarrow> provider" where
  "expandCompleteEmitter_fire expandResult s =
     s\<lparr>emitted := emitted s @ [ExpandCompleted expandResult]\<rparr>"

text \<open>
  \<^verbatim>\<open>doCreateSession\<close>: an async function, so a throw in its body would reject its promise
  (\<open>Inl\<close>). The constructors of \<^verbatim>\<open>TreeDataContext\<close> and \<^verbatim>\<open>TreeNode\<close> are not under src/ and
  are taken to store their arguments and return; \<^verbatim>\<open>getNodeInfo\<close> of the root is below src/ and
  throws nothing. So the body has no throwing statement: it allocates the root node,
  stores the session and resolves. The tree data context is not read by anything modelled
  here and has no field in \<open>root_node\<close>.
\<close>

definition doCreateSession ::
  "connection \<Rightarrow> provider \<Rightarrow> (failure + object_explorer_session) \<times> provider" where
  "doCreateSession connection s =
     (let root = \<lparr>rn_ref = fresh s, rn_session = connection, rn_children = None\<rparr>;
          session = \<lparr>sess_connection = connection, sess_root = Some (rn_ref root)\<rparr>;
          s' = s\<lparr>roots := (roots s)(rn_ref root \<mapsto> root), fresh := fresh s + 1\<rparr>;
          s'' = s'\<lparr>sessionMap := (sessionMap s')(conn_uri connection \<mapsto> session)\<rparr>;
          sessionInfo = \<lparr>oes_sessionId = uri session,
                         oes_success = True,
                         oes_rootNode = Some (RootNode_getNodeInfo root),
                         oes_errorMessage = None\<rparr>
      in (Inr sessionInfo, s''))"

text \<open>
  \<^verbatim>\<open>createNewSession\<close>: the promise's outcome and the provider after the synchronous call.
  A throw of the constructor rejects; otherwise one timer is set and the promise
  resolves with the session id.
\<close>

definition createNewSession ::
  "env \<Rightarrow> conn_obj option \<Rightarrow> provider \<Rightarrow> (failure + string) \<times> provider" where
  "createNewSession E connInfo s =
     (case newConnection E connInfo of
        Inl error \<Rightarrow> (Inl error, s)
      | Inr connection \<Rightarrow>
          (Inr (conn_uri connection),
           s\<lparr>timers := timers s @ [CreateSessionTimer connection]\<rparr>))"

text \<open>
  The timer's callback. The \<^verbatim>\<open>then\<close> and \<^verbatim>\<open>catch\<close> reactions run as microtasks before any
  other timer or request, so the callback and its reactions are one step. (A runtime that
  runs all timers due together before the microtasks can fire the event after those
  timers' callbacks; the events fired are the same.)
\<close>

definition createSessionCallback :: "env \<Rightarrow> connection \<Rightarrow> provider \<Rightarrow> provider" where
  "createSessionCallback E connection s =
     (if sessionMap s (conn_uri connection) = None then
        (case doCreateSession connection s of
           (Inr session, s') \<Rightarrow> sendSessionCreated session s'
         | (Inl error, s') \<Rightarrow>
             handleSessionFailed
               \<lparr>oes_sessionId = conn_uri connection,
                oes_success = False,
                oes_rootNode = None,
                oes_errorMessage = Some (getErrorMessage E error)\<rparr> s')
      else s)"

definition sessionIdNotFound :: string where
  "sessionIdNotFound =
     ''Cannot expand object explorer node. Couldn'' @ [CHR 0x27] @ ''t find session for uri {0}''"

definition nodeNotFound :: string where
  "nodeNotFound =
     ''Cannot expand object explorer node. Couldn'' @ [CHR 0x09] @ '' find node for path {0}''"

definition sessionNotFoundCallback :: "expand_node_info \<Rightarrow> provider \<Rightarrow> provider" where
  "sessionNotFoundCallback nodeInfo s =
     expandCompleteEmitter_fire
       \<lparr>oei_sessionId = eni_sessionId nodeInfo,
        oei_nodePath = eni_nodePath nodeInfo,
        oei_errorMessage = Some (localize sessionIdNotFound (eni_sessionId nodeInfo)),
        oei_nodes = None\<rparr> s"

text \<open>
  \<^verbatim>\<open>startExpansion\<close>: everything between \<^verbatim>\<open>try\<close> and \<^verbatim>\<open>catch\<close> gives either the filled result
  or what was thrown; then the result is fired, once. Reading \<^verbatim>\<open>session.root\<close> of a session
  without a root node throws.
\<close>

definition startExpansion ::
  "env \<Rightarrow> session \<Rightarrow> expand_node_info \<Rightarrow> bool \<Rightarrow> provider \<Rightarrow> provider" where
  "startExpansion E session nodeInfo isRefresh s =
     (let expandResult =
            \<lparr>oei_sessionId = uri session,
             oei_nodePath = eni_nodePath nodeInfo,
             oei_errorMessage = None,
             oei_nodes = Some []\<rparr>;
          (outcome, s') =
            (case sess_root session of
               None \<Rightarrow> (Inl TypeError, s)
             | Some r \<Rightarrow>
                 (case roots s r of
                    None \<Rightarrow> (Inl TypeError, s)
                  | Some root \<Rightarrow>
                      (case findNodeByPath E root (eni_nodePath nodeInfo) of
                         Inl error \<Rightarrow> (Inl error, s)
                       | Inr None \<Rightarrow>
                           (Inr (expandResult
                                  \<lparr>oei_errorMessage :=
                                      Some (localize nodeNotFound (eni_nodePath nodeInfo))\<rparr>), s)
                       | Inr (Some FoundRoot) \<Rightarrow>
                           (let (children, root', fresh') =
                                  RootNode_getChildren True root (fresh s)
                            in (Inr (expandResult
                                      \<lparr>oei_errorMessage := errorMessage (RootNode_getNodeInfo root),
                                       oei_nodes :=
                                         (case children of
                                            None \<Rightarrow> Some []
                                          | Some a \<Rightarrow>
                                              Some (map (connectionNodeInfo E) (arr_items a)))\<rparr>),
                                s\<lparr>roots := (roots s)(r \<mapsto> root'), fresh := fresh'\<rparr>))
                       | Inr (Some (FoundOther nodeError children)) \<Rightarrow>
                           (case children of
                              Inl error \<Rightarrow> (Inl error, s)
                            | Inr infos \<Rightarrow>
                                (Inr (expandResult
                                       \<lparr>oei_errorMessage := nodeError, oei_nodes := Some infos\<rparr>),
                                 s)))))
      in expandCompleteEmitter_fire
           (case outcome of
              Inl error \<Rightarrow> expandResult\<lparr>oei_errorMessage := Some (getErrorMessage E error)\<rparr>
            | Inr result \<Rightarrow> result) s')"

definition doExpandNode :: "expand_node_info \<Rightarrow> bool \<Rightarrow> provider \<Rightarrow> bool \<times> provider" where
  "doExpandNode nodeInfo isRefresh s =
     (case sessionMap s (eni_sessionId nodeInfo) of
        None \<Rightarrow> (False, s\<lparr>timers := timers s @ [SessionNotFoundTimer nodeInfo]\<rparr>)
      | Some session \<Rightarrow>
          (True, s\<lparr>timers := timers s @ [StartExpansionTimer session nodeInfo isRefresh]\<rparr>))"

text \<open>\<^verbatim>\<open>expandNode\<close>: the promise's outcome and the provider after the synchronous call.\<close>

definition expandNode ::
  "expand_node_info option \<Rightarrow> bool \<Rightarrow> provider \<Rightarrow> (failure + bool) \<times> provider" where
  "expandNode nodeInfo isRefresh s =
     (case nodeInfo of
        None \<Rightarrow> (Inl (Reason ''expandNode requires a nodeInfo object to be passed''), s)
      | Some ni \<Rightarrow> (let (accepted, s') = doExpandNode ni isRefresh s in (Inr accepted, s')))"

definition refreshNode ::
  "expand_node_info option \<Rightarrow> provider \<Rightarrow> (failure + bool) \<times> provider" where
  "refreshNode nodeInfo s = expandNode nodeInfo True s"

text \<open>\<^verbatim>\<open>closeSession\<close>, given the \<^verbatim>\<open>sessionId\<close> of its argument; \<^verbatim>\<open>Map.delete\<close> returns whether the
  key was there.\<close>

definition closeSession :: "string \<Rightarrow> provider \<Rightarrow> close_session_response \<times> provider" where
  "closeSession sessionId s =
     (let deleted = (sessionMap s sessionId \<noteq> None);
          s' = s\<lparr>sessionMap := (sessionMap s)(sessionId := None)\<rparr>
      in (\<lparr>csr_success = deleted, csr_sessionId = sessionId\<rparr>, s'))"

text \<open>The event loop: a timer that fires runs its callback.\<close>

fun runTimer :: "env \<Rightarrow> task \<Rightarrow> provider \<Rightarrow> provider" where
  "runTimer E (CreateSessionTimer connection) s = createSessionCallback E connection s"
| "runTimer E (SessionNotFoundTimer nodeInfo) s = sessionNotFoundCallback nodeInfo s"
| "runTimer E (StartExpansionTimer session nodeInfo isRefresh) s =
     startExpansion E session nodeInfo isRefresh s"

text \<open>
  What can happen to a provider: the host calls one of its methods, or the oldest timer
  fires. A run is any sequence of these.
\<close>

datatype request =
    CreateSession "conn_obj option"
  | ExpandNode "expand_node_info option"
  | RefreshNode "expand_node_info option"
  | CloseSession string
  | TimerFires

fun step :: "env \<Rightarrow> request \<Rightarrow> provider \<Rightarrow> provider" where
  "step E (CreateSession connInfo) s = snd (createNewSession E connInfo s)"
| "step E (ExpandNode nodeInfo) s = snd (expandNode nodeInfo False s)"
| "step E (RefreshNode nodeInfo) s = snd (refreshNode nodeInfo s)"
| "step E (CloseSession sessionId) s = snd (closeSession sessionId s)"
| "step E TimerFires s =
     (case timers s of
        [] \<Rightarrow> s
      | t # ts \<Rightarrow> runTimer E t (s\<lparr>timers := ts\<rparr>))"

fun run :: "env \<Rightarrow> request list \<Rightarrow> provider \<Rightarrow> provider" where
  "run E [] s = s"
| "run E (r # rs) s = run E rs (step E r s)"


section \<open>SqlClusterLookUp (bigDataClusterLookUp.ts)\<close>

text \<open>
  Three constants the lookup reads are not in the constants file under src/; they are a
  parameter.
\<close>

record lookup_constants =
  mssqlClusterProviderName :: string
  clusterEndpointsProperty :: string
  hadoopKnoxEndpointName :: string

record endpoint =
  serviceName :: string
  ipAddress :: string
  ep_port :: int

record server_info =
  si_options :: "(string \<rightharpoonup> endpoint list) option"

text \<open>
  The host's \<^verbatim>\<open>sqlops.connection\<close>: what the two awaited promises resolve with, \<open>None\<close> for
  \<^verbatim>\<open>undefined\<close>.
\<close>

record sqlops_connection =
  getServerInfo :: "jsval \<Rightarrow> server_info option"
  getCredentials :: "jsval \<Rightarrow> options option"

text \<open>\<^verbatim>\<open>Array.prototype.findIndex\<close>: the first index that satisfies, or \<open>-1\<close>.\<close>

fun findIndex :: "('a \<Rightarrow> bool) \<Rightarrow> 'a list \<Rightarrow> int" where
  "findIndex P [] = - 1"
| "findIndex P (x # xs) =
     (if P x then 0 else (let i = findIndex P xs in if i < 0 then - 1 else i + 1))"

definition connProfileToConnectionParam :: "conn_obj \<Rightarrow> conn_obj" where
  "connProfileToConnectionParam connectionProfile =
     connectionProfile
       \<lparr>connectionId := (case id_prop connectionProfile of None \<Rightarrow> JUndefined | Some i \<Rightarrow> i)\<rparr>"

definition connToConnectionParam :: "conn_obj \<Rightarrow> failure + conn_obj" where
  "connToConnectionParam connection =
     (case options connection of
        None \<Rightarrow> Inl TypeError
      | Some os \<Rightarrow>
          Inr (connection
                \<lparr>serverName :=
                    JStr (js_string (opt_get os hostPropName) @ '','' @
                          js_string (opt_get os knoxPortPropName)),
                 userName := opt_get os userPropName,
                 password := opt_get os passwordPropName,
                 id_prop := Some (connectionId connection)\<rparr>))"

text \<open>\<open>uuid\<close> is what \<^verbatim>\<open>UUID.generateUuid()\<close> returns.\<close>

definition createSqlClusterConnectionParam ::
  "lookup_constants \<Rightarrow> sqlops_connection \<Rightarrow> string \<Rightarrow> conn_obj option \<Rightarrow>
     failure + conn_obj option" where
  "createSqlClusterConnectionParam K api uuid obj =
     (case obj of
        None \<Rightarrow> Inr None
      | Some ob \<Rightarrow>
          (let connId = (case id_prop ob of Some i \<Rightarrow> i | None \<Rightarrow> connectionId ob) in
           if \<not> truthy connId then Inr None
           else
             (case getServerInfo api connId of
                None \<Rightarrow> Inr None
              | Some serverInfo \<Rightarrow>
                  (case si_options serverInfo of
                     None \<Rightarrow> Inr None
                   | Some serverOptions \<Rightarrow>
                       (case serverOptions (clusterEndpointsProperty K) of
                          None \<Rightarrow> Inr None
                        | Some endpoints \<Rightarrow>
                            if length endpoints = 0 then Inr None
                            else
                              (let index =
                                 findIndex (\<lambda>ep. serviceName ep = hadoopKnoxEndpointName K)
                                   endpoints
                               in
                               if index < 0 then Inr None
                               else
                                 (case getCredentials api connId of
                                    None \<Rightarrow> Inr None
                                  | Some credentials \<Rightarrow>
                                      (let clusterConnInfo =
                                         \<lparr>providerName = JStr (mssqlClusterProviderName K),
                                          id_prop = None,
                                          connectionId = JStr uuid,
                                          options = Some Map.empty,
                                          serverName = JUndefined,
                                          userName = JUndefined,
                                          password = JUndefined\<rparr>;
                                         ep = endpoints ! nat index;
                                         clusterConnInfo = clusterConnInfo
                                           \<lparr>options := Some
                                              (Map.empty
                                                (hostPropName \<mapsto> JStr (ipAddress ep),
                                                 knoxPortPropName \<mapsto> JNum (ep_port ep),
                                                 userPropName \<mapsto> JStr ''root'',
                                                 passwordPropName \<mapsto>
                                                   opt_get credentials ''password''))\<rparr>
                                       in map_sum id Some
                                            (connToConnectionParam clusterConnInfo)))))))))"

definition lookUpSqlClusterInfo ::
  "lookup_constants \<Rightarrow> sqlops_connection \<Rightarrow> string \<Rightarrow> conn_obj option \<Rightarrow>
     failure + conn_obj option" where
  "lookUpSqlClusterInfo K api uuid obj =
     (case obj of
        None \<Rightarrow> Inr None
      | Some ob \<Rightarrow>
          if providerName ob = JStr (mssqlClusterProviderName K) then
            (case id_prop ob of
               Some i \<Rightarrow> Inr (Some (connProfileToConnectionParam ob))
             | None \<Rightarrow> map_sum id Some (connToConnectionParam ob))
          else createSqlClusterConnectionParam K api uuid obj)"


section \<open>Sample inputs\<close>

text \<open>
  Concrete inputs on which the definitions are run: an option bag with host, user and
  password and no port, a connection object around a bag, and stand-ins for the code the
  provider calls outside src/ (a connection whose uri is the prefix followed by the host).
\<close>

definition sample_options :: options where
  "sample_options =
     [hostPropName \<mapsto> JStr ''h'', userPropName \<mapsto> JStr ''root'', passwordPropName \<mapsto> JStr ''p'']"

definition sample_connInfo :: "options \<Rightarrow> conn_obj" where
  "sample_connInfo os =
     \<lparr>providerName = JStr ''HADOOP_KNOX'', id_prop = None, connectionId = JStr ''c1'',
      options = Some os, serverName = JUndefined, userName = JUndefined, password = JUndefined\<rparr>"

definition sample_env :: env where
  "sample_env =
     \<lparr>newConnection =
        (\<lambda>connInfo.
           case connInfo of
             None \<Rightarrow> Inl (Error ''connectionInfo is required'')
           | Some ci \<Rightarrow>
               (case options ci of
                  None \<Rightarrow> Inl TypeError
                | Some os \<Rightarrow>
                    Inr \<lparr>conn_uri = objectExplorerPrefix @ js_string (opt_get os hostPropName),
                         conn_host = js_string (opt_get os hostPropName)\<rparr>)),
      findNodeByPath =
        (\<lambda>root path. Inr (if path = generateNodePath root then Some FoundRoot else None)),
      connectionNodeInfo =
        (\<lambda>node. \<lparr>label = cn_label node, isLeaf = False, errorMessage = None,
                  metadata = JUndefined, nodePath = cn_label node, nodeStatus = JUndefined,
                  nodeType = ''hdfs:connection'', nodeSubType = None, iconType = ''folder''\<rparr>),
      getErrorMessage =
        (\<lambda>e. case e of Error m \<Rightarrow> m | Reason m \<Rightarrow> m | TypeError \<Rightarrow> ''TypeError'')\<rparr>"

lemmas sample_defs = sample_options_def sample_connInfo_def sample_env_def prop_names
  objectExplorerPrefix_def opt_get_def js_string_def


text \<open>
  A root node without children yet; names for the three constants the lookup reads; a
  host whose only connection is \<^verbatim>\<open>c1\<close>, with the given endpoints and credentials; and a
  connection of another provider with the given connection id.
\<close>

definition sample_root :: root_node where
  "sample_root =
     \<lparr>rn_ref = 0, rn_session = \<lparr>conn_uri = ''objectexplorer://h'', conn_host = ''h''\<rparr>,
      rn_children = None\<rparr>"

definition sample_constants :: lookup_constants where
  "sample_constants =
     \<lparr>mssqlClusterProviderName = ''mssqlCluster'',
      clusterEndpointsProperty = ''clusterEndpoints'',
      hadoopKnoxEndpointName = ''gateway''\<rparr>"

definition sample_api :: "endpoint list option \<Rightarrow> options option \<Rightarrow> sqlops_connection" where
  "sample_api endpoints credentials =
     \<lparr>getServerInfo =
        (\<lambda>connId. if connId = JStr ''c1''
                   then Some \<lparr>si_options = Some (\<lambda>name. if name = ''clusterEndpoints'' then endpoints else None)\<rparr>
                   else None),
      getCredentials = (\<lambda>connId. credentials)\<rparr>"

definition sample_sql_connection :: "jsval \<Rightarrow> conn_obj" where
  "sample_sql_connection connId =
     \<lparr>providerName = JStr ''MSSQL'', id_prop = None, connectionId = connId,
      options = Some Map.empty, serverName = JUndefined, userName = JUndefined,
      password = JUndefined\<rparr>"


section \<open>Properties of SqlClusterConnection\<close>

lemma isValid_Some:
  "isValid (Some ci) =
     (\<exists>os. options ci = Some os \<and> opt_get os hostPropName \<noteq> JUndefined \<and>
        opt_get os knoxPortPropName \<noteq> JUndefined \<and> opt_get os userPropName \<noteq> JUndefined \<and>
        opt_get os passwordPropName \<noteq> JUndefined)"
  by (simp add: isValid_def split: option.splits)

lemma new_SqlClusterConnection_invalid:
  "\<not> isValid connectionInfo \<Longrightarrow>
     new_SqlClusterConnection connectionInfo = Inl (Error ''Invalid ConnectionInfo is provided.'')"
  by (simp add: new_SqlClusterConnection_def)

lemma new_SqlClusterConnection_succeeds:
  "isValid (Some ci) \<Longrightarrow> \<exists>c. new_SqlClusterConnection (Some ci) = Inr c"
  by (cases "id_prop ci")
     (auto simp: new_SqlClusterConnection_def isValid_Some Let_def)

lemma new_SqlClusterConnection_fields:
  assumes "new_SqlClusterConnection connectionInfo = Inr c"
  shows "\<exists>ci os. connectionInfo = Some ci \<and> isValid (Some ci) \<and> options ci = Some os \<and>
           options (priv_sqlClusterConnInfo c) = Some os \<and>
           priv_host c = opt_get os hostPropName \<and>
           priv_port c = opt_get os knoxPortPropName \<and>
           priv_user c = opt_get os userPropName \<and>
           priv_pass c = opt_get os passwordPropName"
proof (cases "isValid connectionInfo")
  case False
  with assms show ?thesis
    by (simp add: new_SqlClusterConnection_def)
next
  case True
  then obtain ci os where ci: "connectionInfo = Some ci" and os: "options ci = Some os"
    by (cases connectionInfo) (auto simp: isValid_def split: option.splits)
  show ?thesis
  proof (cases "id_prop ci")
    case None
    with assms True ci os show ?thesis
      by (auto simp: new_SqlClusterConnection_def)
  next
    case (Some i)
    with assms True ci os show ?thesis
      by (auto simp: new_SqlClusterConnection_def Let_def)
  qed
qed

lemma port_of_new:
  assumes "new_SqlClusterConnection (Some ci) = Inr c" "options ci = Some os"
  shows "port c = js_or (opt_get os knoxPortPropName) (JStr defaultKnoxPort)"
  using new_SqlClusterConnection_fields[OF assms(1)] assms(2)
  by (auto simp: port_def)

lemma isMatch_new:
  assumes a: "new_SqlClusterConnection c1 = Inr a" and b: "new_SqlClusterConnection c2 = Inr b"
  shows "isMatch a (Some (OtherConnection b)) =
           Inr (priv_host a = priv_host b \<and> priv_port a = priv_port b \<and> priv_user a = priv_user b)"
  using new_SqlClusterConnection_fields[OF a] new_SqlClusterConnection_fields[OF b]
  by (auto simp: isMatch_def)

lemma isMatch_self_info:
  assumes a: "new_SqlClusterConnection (Some d) = Inr a"
  shows "isMatch a (Some (ConnectionInfo d)) = Inr True"
  using new_SqlClusterConnection_fields[OF a]
  by (auto simp: isMatch_def)

lemma isMatch_info:
  fixes e :: conn_obj
  assumes e: "options e = Some os'" and a: "new_SqlClusterConnection c1 = Inr a"
  shows "isMatch a (Some (ConnectionInfo e)) =
           Inr (opt_get os' hostPropName = priv_host a \<and>
                opt_get os' knoxPortPropName = priv_port a \<and>
                opt_get os' userPropName = priv_user a)"
  using new_SqlClusterConnection_fields[OF a] e
  by (auto simp: isMatch_def)

lemma isMatch_password:
  assumes a: "new_SqlClusterConnection c1 = Inr a"
    and b: "new_SqlClusterConnection (Some d) = Inr b"
    and d: "options d = Some os"
    and b': "new_SqlClusterConnection (Some (d\<lparr>options := Some (os(passwordPropName := pw))\<rparr>)) = Inr b'"
  shows "isMatch a (Some (OtherConnection b')) = isMatch a (Some (OtherConnection b))"
  using new_SqlClusterConnection_fields[OF a] new_SqlClusterConnection_fields[OF b]
    new_SqlClusterConnection_fields[OF b'] d
  by (auto simp: isMatch_def opt_get_def prop_names)


lemma new_SqlClusterConnection_stored:
  assumes "new_SqlClusterConnection (Some ci) = Inr c" "options ci = Some os"
  shows "priv_host c = opt_get os hostPropName" "priv_port c = opt_get os knoxPortPropName"
    "priv_user c = opt_get os userPropName" "priv_pass c = opt_get os passwordPropName"
  using new_SqlClusterConnection_fields[OF assms(1)] assms(2) by auto


text \<open>
  Claim C7. For two descriptors built by the constructor, \<^verbatim>\<open>isMatch\<close> returns true exactly
  when their stored host, port and user are equal; the password has no influence: changing
  the password option of either input leaves the result as it is. And a descriptor built
  from a valid connection info matches that connection info. Against any connection info
  with an option bag, \<^verbatim>\<open>isMatch\<close> returns true exactly when the bag's host, port and user
  equal the descriptor's stored ones, whatever the bag's password; against no argument it
  returns false.
\<close>

theorem isMatch_host_port_user:
  assumes a: "new_SqlClusterConnection c1 = Inr a"
    and b: "new_SqlClusterConnection (Some d) = Inr b"
  shows "isMatch a (Some (OtherConnection b)) =
           Inr (priv_host a = priv_host b \<and> priv_port a = priv_port b \<and> priv_user a = priv_user b)
       \<and> (\<forall>os pw b'.
             options d = Some os \<and>
             new_SqlClusterConnection
               (Some (d\<lparr>options := Some (os(passwordPropName := pw))\<rparr>)) = Inr b' \<longrightarrow>
             isMatch a (Some (OtherConnection b')) = isMatch a (Some (OtherConnection b)) \<and>
             isMatch b' (Some (OtherConnection a)) = isMatch b (Some (OtherConnection a)))
       \<and> isMatch b (Some (ConnectionInfo d)) = Inr True
       \<and> (\<forall>(e :: conn_obj) os'.
             options e = Some os' \<longrightarrow>
             isMatch a (Some (ConnectionInfo e)) =
               Inr (opt_get os' hostPropName = priv_host a \<and>
                    opt_get os' knoxPortPropName = priv_port a \<and>
                    opt_get os' userPropName = priv_user a))
       \<and> isMatch a None = Inr False"
proof (intro conjI allI impI)
  show "isMatch a (Some (OtherConnection b)) =
           Inr (priv_host a = priv_host b \<and> priv_port a = priv_port b \<and> priv_user a = priv_user b)"
    using a b by (rule isMatch_new)
next
  fix os pw b'
  assume h: "options d = Some os \<and>
             new_SqlClusterConnection
               (Some (d\<lparr>options := Some (os(passwordPropName := pw))\<rparr>)) = Inr b'"
  then show "isMatch a (Some (OtherConnection b')) = isMatch a (Some (OtherConnection b))"
    using isMatch_password[OF a b] by blast
  from h have b': "new_SqlClusterConnection
               (Some (d\<lparr>options := Some (os(passwordPropName := pw))\<rparr>)) = Inr b'"
    and os: "options d = Some os" by simp_all
  show "isMatch b' (Some (OtherConnection a)) = isMatch b (Some (OtherConnection a))"
    using new_SqlClusterConnection_fields[OF a] new_SqlClusterConnection_fields[OF b]
      new_SqlClusterConnection_fields[OF b'] os
    by (auto simp: isMatch_def opt_get_def prop_names)
next
  show "isMatch b (Some (ConnectionInfo d)) = Inr True"
    using b by (rule isMatch_self_info)
next
  fix e :: conn_obj and os'
  assume "options e = Some os'"
  then show "isMatch a (Some (ConnectionInfo e)) =
               Inr (opt_get os' hostPropName = priv_host a \<and>
                    opt_get os' knoxPortPropName = priv_port a \<and>
                    opt_get os' userPropName = priv_user a)"
    using a by (rule isMatch_info)
next
  show "isMatch a None = Inr False"
    by (simp add: isMatch_def)
qed


theorem isMatch_host_port_user_witness:
  "\<exists>a b b'.
     new_SqlClusterConnection
       (Some (sample_connInfo (sample_options(knoxPortPropName \<mapsto> JStr ''30443'')))) = Inr a
     \<and> new_SqlClusterConnection
       (Some (sample_connInfo (sample_options(knoxPortPropName \<mapsto> JStr ''30443'',
                                              passwordPropName \<mapsto> JStr ''q'')))) = Inr b
     \<and> new_SqlClusterConnection
       (Some (sample_connInfo (sample_options(knoxPortPropName \<mapsto> JStr [])))) = Inr b'
     \<and> isMatch a (Some (OtherConnection b)) = Inr True
     \<and> isMatch a (Some (OtherConnection b')) = Inr False
     \<and> isMatch b (Some (ConnectionInfo
           (sample_connInfo (sample_options(knoxPortPropName \<mapsto> JStr ''30443'',
                                            passwordPropName \<mapsto> JStr ''q''))))) = Inr True
     \<and> isMatch a (Some (ConnectionInfo
           (sample_connInfo (sample_options(knoxPortPropName \<mapsto> JStr ''30443'',
                                            passwordPropName \<mapsto> JStr ''q''))))) = Inr True
     \<and> isMatch a (Some (ConnectionInfo
           (sample_connInfo (sample_options(knoxPortPropName \<mapsto> JStr ''30443'',
                                            hostPropName \<mapsto> JStr ''other''))))) = Inr False"
proof -
  let ?o1 = "sample_options(knoxPortPropName \<mapsto> JStr ''30443'')"
  let ?o2 = "sample_options(knoxPortPropName \<mapsto> JStr ''30443'', passwordPropName \<mapsto> JStr ''q'')"
  let ?o3 = "sample_options(knoxPortPropName \<mapsto> JStr [])"
  have v1: "isValid (Some (sample_connInfo ?o1))"
    by (simp add: isValid_def sample_defs)
  have v2: "isValid (Some (sample_connInfo ?o2))"
    by (simp add: isValid_def sample_defs)
  have v3: "isValid (Some (sample_connInfo ?o3))"
    by (simp add: isValid_def sample_defs)
  obtain a where a: "new_SqlClusterConnection (Some (sample_connInfo ?o1)) = Inr a"
    using new_SqlClusterConnection_succeeds[OF v1] by blast
  obtain b where b: "new_SqlClusterConnection (Some (sample_connInfo ?o2)) = Inr b"
    using new_SqlClusterConnection_succeeds[OF v2] by blast
  obtain b' where b': "new_SqlClusterConnection (Some (sample_connInfo ?o3)) = Inr b'"
    using new_SqlClusterConnection_succeeds[OF v3] by blast
  have o: "options (sample_connInfo ?o1) = Some ?o1" "options (sample_connInfo ?o2) = Some ?o2"
    "options (sample_connInfo ?o3) = Some ?o3"
    by (simp_all add: sample_connInfo_def)
  have fa: "priv_host a = JStr ''h''" "priv_port a = JStr ''30443''" "priv_user a = JStr ''root''"
    by (simp_all add: new_SqlClusterConnection_stored[OF a o(1)] sample_options_def opt_get_def prop_names)
  have fb: "priv_host b = JStr ''h''" "priv_port b = JStr ''30443''" "priv_user b = JStr ''root''"
    by (simp_all add: new_SqlClusterConnection_stored[OF b o(2)] sample_options_def opt_get_def prop_names)
  have fb': "priv_port b' = JStr []"
    by (simp_all add: new_SqlClusterConnection_stored[OF b' o(3)] sample_options_def opt_get_def prop_names)
  have 1: "isMatch a (Some (OtherConnection b)) = Inr True"
    using isMatch_host_port_user[OF a b, THEN conjunct1] by (simp add: fa fb)
  have 2: "isMatch a (Some (OtherConnection b')) = Inr False"
    using isMatch_host_port_user[OF a b', THEN conjunct1] by (simp add: fa fb')
  have 3: "isMatch b (Some (ConnectionInfo (sample_connInfo ?o2))) = Inr True"
    using isMatch_host_port_user[OF a b, THEN conjunct2, THEN conjunct2, THEN conjunct1] .
  let ?o4 = "sample_options(knoxPortPropName \<mapsto> JStr ''30443'', hostPropName \<mapsto> JStr ''other'')"
  have 4: "isMatch a (Some (ConnectionInfo (sample_connInfo ?o2))) = Inr True"
    using isMatch_host_port_user[OF a b, THEN conjunct2, THEN conjunct2, THEN conjunct2,
        THEN conjunct1, rule_format, OF o(2)]
    by (simp add: fa sample_options_def opt_get_def prop_names)
  have o4: "options (sample_connInfo ?o4) = Some ?o4"
    by (simp add: sample_connInfo_def)
  have 5: "isMatch a (Some (ConnectionInfo (sample_connInfo ?o4))) = Inr False"
    using isMatch_host_port_user[OF a b, THEN conjunct2, THEN conjunct2, THEN conjunct2,
        THEN conjunct1, rule_format, OF o4]
    by (simp add: fa sample_options_def opt_get_def prop_names)
  from a b b' 1 2 3 4 5 show ?thesis by blast
qed

text \<open>
  The comparison is on the stored values, before the getter's default: two descriptors
  whose \<^verbatim>\<open>port\<close> getters agree, one storing \<^verbatim>\<open>30443\<close> and one the empty string, do not match.
\<close>

lemma isMatch_reads_stored_port:
  "\<exists>a b.
     new_SqlClusterConnection
       (Some (sample_connInfo (sample_options(knoxPortPropName \<mapsto> JStr ''30443'')))) = Inr a
     \<and> new_SqlClusterConnection
       (Some (sample_connInfo (sample_options(knoxPortPropName \<mapsto> JStr [])))) = Inr b
     \<and> port a = port b
     \<and> isMatch a (Some (OtherConnection b)) = Inr False"
proof -
  let ?o1 = "sample_options(knoxPortPropName \<mapsto> JStr ''30443'')"
  let ?o3 = "sample_options(knoxPortPropName \<mapsto> JStr [])"
  have v1: "isValid (Some (sample_connInfo ?o1))"
    by (simp add: isValid_def sample_defs)
  have v3: "isValid (Some (sample_connInfo ?o3))"
    by (simp add: isValid_def sample_defs)
  obtain a where a: "new_SqlClusterConnection (Some (sample_connInfo ?o1)) = Inr a"
    using new_SqlClusterConnection_succeeds[OF v1] by blast
  obtain b where b: "new_SqlClusterConnection (Some (sample_connInfo ?o3)) = Inr b"
    using new_SqlClusterConnection_succeeds[OF v3] by blast
  have o: "options (sample_connInfo ?o1) = Some ?o1" "options (sample_connInfo ?o3) = Some ?o3"
    by (simp_all add: sample_connInfo_def)
  have pa: "priv_port a = JStr ''30443''"
    by (simp add: new_SqlClusterConnection_stored[OF a o(1)] opt_get_def)
  have pb: "priv_port b = JStr []"
    by (simp add: new_SqlClusterConnection_stored[OF b o(2)] opt_get_def)
  have "port a = port b"
    by (simp add: port_def pa pb js_or_def truthy_def defaultKnoxPort_def)
  moreover have "isMatch a (Some (OtherConnection b)) = Inr False"
    by (simp add: isMatch_new[OF a b] pa pb)
  ultimately show ?thesis
    using a b by blast
qed

text \<open>
  Claim C9. For a connection input whose host, user and password options are present and
  whose \<^verbatim>\<open>knoxport\<close> option is present but the empty string, the constructor succeeds and the
  \<^verbatim>\<open>port\<close> getter returns the default \<^verbatim>\<open>30443\<close>. The same holds for every stored port that is
  present and falsy. When the option is absent the constructor throws instead: the default
  stands in for a falsy stored value, not for an absent field.
\<close>

theorem falsy_port_defaults:
  assumes "options ci = Some os"
    and "opt_get os hostPropName \<noteq> JUndefined"
    and "opt_get os userPropName \<noteq> JUndefined"
    and "opt_get os passwordPropName \<noteq> JUndefined"
  shows "(opt_get os knoxPortPropName = JStr [] \<longrightarrow>
            (\<exists>c. new_SqlClusterConnection (Some ci) = Inr c \<and> port c = JStr defaultKnoxPort))
       \<and> (opt_get os knoxPortPropName \<noteq> JUndefined \<and> \<not> truthy (opt_get os knoxPortPropName) \<longrightarrow>
            (\<exists>c. new_SqlClusterConnection (Some ci) = Inr c \<and> port c = JStr defaultKnoxPort))
       \<and> (opt_get os knoxPortPropName = JUndefined \<longrightarrow>
            new_SqlClusterConnection (Some ci) = Inl (Error ''Invalid ConnectionInfo is provided.''))
       \<and> defaultKnoxPort = ''30443''"
proof -
  have present: "\<exists>c. new_SqlClusterConnection (Some ci) = Inr c \<and> port c = JStr defaultKnoxPort"
    if "opt_get os knoxPortPropName \<noteq> JUndefined" "\<not> truthy (opt_get os knoxPortPropName)"
  proof -
    from assms that have "isValid (Some ci)"
      by (simp add: isValid_Some)
    then obtain c where c: "new_SqlClusterConnection (Some ci) = Inr c"
      using new_SqlClusterConnection_succeeds by blast
    with assms(1) that(2) have "port c = JStr defaultKnoxPort"
      by (simp add: port_of_new js_or_def)
    with c show ?thesis by blast
  qed
  have absent: "new_SqlClusterConnection (Some ci) = Inl (Error ''Invalid ConnectionInfo is provided.'')"
    if "opt_get os knoxPortPropName = JUndefined"
    using that assms(1)
    by (intro new_SqlClusterConnection_invalid) (simp add: isValid_Some)
  from present absent show ?thesis
    by (simp add: truthy_def defaultKnoxPort_def)
qed

theorem falsy_port_defaults_witness:
  "(\<exists>c. new_SqlClusterConnection
           (Some (sample_connInfo (sample_options(knoxPortPropName \<mapsto> JStr [])))) = Inr c
        \<and> port c = JStr ''30443'')
   \<and> (\<exists>c. new_SqlClusterConnection
           (Some (sample_connInfo (sample_options(knoxPortPropName \<mapsto> JNum 0)))) = Inr c
        \<and> port c = JStr ''30443'')
   \<and> new_SqlClusterConnection (Some (sample_connInfo sample_options)) =
        Inl (Error ''Invalid ConnectionInfo is provided.'')"
proof -
  let ?e = "sample_options(knoxPortPropName \<mapsto> JStr [])"
  let ?z = "sample_options(knoxPortPropName \<mapsto> JNum 0)"
  have 1: "\<exists>c. new_SqlClusterConnection (Some (sample_connInfo ?e)) = Inr c \<and> port c = JStr ''30443''"
    using falsy_port_defaults[of "sample_connInfo ?e" ?e]
    by (simp add: sample_defs)
  have 2: "\<exists>c. new_SqlClusterConnection (Some (sample_connInfo ?z)) = Inr c \<and> port c = JStr ''30443''"
    using falsy_port_defaults[of "sample_connInfo ?z" ?z]
    by (simp add: sample_defs truthy_def)
  have 3: "new_SqlClusterConnection (Some (sample_connInfo sample_options)) =
        Inl (Error ''Invalid ConnectionInfo is provided.'')"
    using falsy_port_defaults[of "sample_connInfo sample_options" sample_options]
    by (simp add: sample_defs)
  from 1 2 3 show ?thesis by blast
qed


section \<open>Properties of the provider\<close>

lemma localize_sessionIdNotFound:
  "localize sessionIdNotFound arg =
     ''Cannot expand object explorer node. Couldn'' @ [CHR 0x27] @ ''t find session for uri '' @ arg"
  by (simp add: sessionIdNotFound_def)

lemma createSessionCallback_present:
  "sessionMap s (conn_uri c) \<noteq> None \<Longrightarrow> createSessionCallback E c s = s"
  by (auto simp: createSessionCallback_def)

lemma createSessionCallback_absent:
  assumes "sessionMap s (conn_uri c) = None"
  shows "createSessionCallback E c s =
     s\<lparr>sessionMap :=
          (sessionMap s)(conn_uri c \<mapsto> \<lparr>sess_connection = c, sess_root = Some (fresh s)\<rparr>),
       roots :=
          (roots s)(fresh s \<mapsto> \<lparr>rn_ref = fresh s, rn_session = c, rn_children = None\<rparr>),
       fresh := fresh s + 1,
       emitted := emitted s @ [SessionCreated
          \<lparr>oes_sessionId = conn_uri c, oes_success = True,
           oes_rootNode = Some (RootNode_getNodeInfo
             \<lparr>rn_ref = fresh s, rn_session = c, rn_children = None\<rparr>),
           oes_errorMessage = None\<rparr>]\<rparr>"
  using assms
  by (simp add: createSessionCallback_def doCreateSession_def sendSessionCreated_def Let_def uri_def)

lemma createNewSession_accepted:
  "newConnection E connInfo = Inr c \<Longrightarrow>
     createNewSession E connInfo s =
       (Inr (conn_uri c), s\<lparr>timers := timers s @ [CreateSessionTimer c]\<rparr>)"
  by (simp add: createNewSession_def)

lemma createNewSession_rejected:
  "newConnection E connInfo = Inl e \<Longrightarrow> createNewSession E connInfo s = (Inl e, s)"
  by (simp add: createNewSession_def)

lemma emitted_createNewSession:
  "emitted (snd (createNewSession E connInfo s)) = emitted s"
  by (simp add: createNewSession_def split: sum.splits)

lemma session_root_label:
  assumes "newConnection E connInfo = Inr k" "sessionMap s (conn_uri k) = None" "timers s = []"
  shows "\<exists>info root.
           emitted (run E [CreateSession connInfo, TimerFires] s) = emitted s @ [SessionCreated info]
           \<and> oes_success info \<and> oes_rootNode info = Some root
           \<and> label root = conn_host k \<and> \<not> isLeaf root"
  using assms
  by (simp add: createNewSession_accepted createSessionCallback_absent RootNode_getNodeInfo_def)

text \<open>
  Two more paths of the provider: a failed session removes the key and fires the
  failure, and an expansion, however it ends, fires exactly one event.
\<close>

lemma handleSessionFailed_effect:
  "emitted (handleSessionFailed sessionInfo s) = emitted s @ [SessionCreated sessionInfo]
   \<and> sessionMap (handleSessionFailed sessionInfo s) (oes_sessionId sessionInfo) = None"
  by (simp add: handleSessionFailed_def sendSessionCreated_def)

lemma emitted_startExpansion:
  "\<exists>result. emitted (startExpansion E session nodeInfo isRefresh s) =
      emitted s @ [ExpandCompleted result] \<and> oei_sessionId result = uri session
      \<and> oei_nodePath result = eni_nodePath nodeInfo"
  by (auto simp: startExpansion_def expandCompleteEmitter_fire_def Let_def
        split: option.splits sum.splits found_node.splits prod.splits)

text \<open>
  Claim C2, as stated, fails: with host \<^verbatim>\<open>h\<close>, user \<^verbatim>\<open>root\<close>, password \<^verbatim>\<open>p\<close> and no port the
  constructor throws.
\<close>

theorem port_absent_counterexample:
  "new_SqlClusterConnection
     (Some \<lparr>providerName = JStr ''HADOOP_KNOX'', id_prop = None, connectionId = JStr ''c1'',
            options = Some [''host'' \<mapsto> JStr ''h'', ''user'' \<mapsto> JStr ''root'',
                            ''password'' \<mapsto> JStr ''p''],
            serverName = JUndefined, userName = JUndefined, password = JUndefined\<rparr>)
   = Inl (Error ''Invalid ConnectionInfo is provided.'')"
  by (simp add: new_SqlClusterConnection_def isValid_def opt_get_def prop_names)

text \<open>
  Claim C2, amended. For a connection input whose host, user and password options are
  present: when the \<^verbatim>\<open>knoxport\<close> option is absent the constructor throws
  \<^verbatim>\<open>Invalid ConnectionInfo is provided.\<close>; when it is present the constructor succeeds and
  the \<^verbatim>\<open>port\<close> getter returns the stored port if that is truthy and \<^verbatim>\<open>30443\<close> otherwise.
  And for every input that the provider's \<^verbatim>\<open>Connection\<close> constructor accepts, creating a
  session on a provider that is idle and has no session under that key emits one success
  event whose root node has the connection's host as label and \<^verbatim>\<open>isLeaf = false\<close>.
\<close>

theorem port_absent_is_invalid:
  assumes "options ci = Some os"
    and "opt_get os hostPropName \<noteq> JUndefined"
    and "opt_get os userPropName \<noteq> JUndefined"
    and "opt_get os passwordPropName \<noteq> JUndefined"
  shows "(opt_get os knoxPortPropName = JUndefined \<longrightarrow>
            new_SqlClusterConnection (Some ci) = Inl (Error ''Invalid ConnectionInfo is provided.''))
       \<and> (opt_get os knoxPortPropName \<noteq> JUndefined \<longrightarrow>
            (\<exists>c. new_SqlClusterConnection (Some ci) = Inr c \<and>
                 port c = js_or (opt_get os knoxPortPropName) (JStr ''30443'')))
       \<and> (\<forall>(E :: env) connInfo k (s :: provider).
             newConnection E connInfo = Inr k \<and> sessionMap s (conn_uri k) = None \<and> timers s = [] \<longrightarrow>
             (\<exists>info root.
                emitted (run E [CreateSession connInfo, TimerFires] s) =
                  emitted s @ [SessionCreated info]
                \<and> oes_success info \<and> oes_rootNode info = Some root
                \<and> label root = conn_host k \<and> \<not> isLeaf root))"
proof (intro conjI impI allI)
  assume "opt_get os knoxPortPropName = JUndefined"
  with assms(1) show "new_SqlClusterConnection (Some ci) = Inl (Error ''Invalid ConnectionInfo is provided.'')"
    by (intro new_SqlClusterConnection_invalid) (simp add: isValid_Some)
next
  assume "opt_get os knoxPortPropName \<noteq> JUndefined"
  with assms have "isValid (Some ci)"
    by (simp add: isValid_Some)
  then obtain c where c: "new_SqlClusterConnection (Some ci) = Inr c"
    using new_SqlClusterConnection_succeeds by blast
  with assms(1) have "port c = js_or (opt_get os knoxPortPropName) (JStr ''30443'')"
    by (simp add: port_of_new defaultKnoxPort_def)
  with c show "\<exists>c. new_SqlClusterConnection (Some ci) = Inr c \<and>
                 port c = js_or (opt_get os knoxPortPropName) (JStr ''30443'')"
    by blast
next
  fix E :: env and connInfo k and s :: provider
  assume "newConnection E connInfo = Inr k \<and> sessionMap s (conn_uri k) = None \<and> timers s = []"
  then show "\<exists>info root.
                emitted (run E [CreateSession connInfo, TimerFires] s) =
                  emitted s @ [SessionCreated info]
                \<and> oes_success info \<and> oes_rootNode info = Some root
                \<and> label root = conn_host k \<and> \<not> isLeaf root"
    using session_root_label by blast
qed

theorem port_absent_is_invalid_witness:
  "new_SqlClusterConnection (Some (sample_connInfo sample_options)) =
      Inl (Error ''Invalid ConnectionInfo is provided.'')
   \<and> (\<exists>c. new_SqlClusterConnection
           (Some (sample_connInfo (sample_options(knoxPortPropName \<mapsto> JStr ''8443'')))) = Inr c
        \<and> port c = JStr ''8443'')
   \<and> (\<exists>info root.
         emitted (run sample_env
            [CreateSession (Some (sample_connInfo (sample_options(knoxPortPropName \<mapsto> JStr [])))),
             TimerFires] new_provider) = [SessionCreated info]
         \<and> oes_success info \<and> oes_rootNode info = Some root \<and> label root = ''h'' \<and> \<not> isLeaf root)"
proof -
  let ?os = "sample_options(knoxPortPropName \<mapsto> JStr ''8443'')"
  let ?d = "Some (sample_connInfo (sample_options(knoxPortPropName \<mapsto> JStr [])))"
  have k: "newConnection sample_env ?d = Inr \<lparr>conn_uri = ''objectexplorer://h'', conn_host = ''h''\<rparr>"
    by (simp add: sample_defs)
  have 1: "new_SqlClusterConnection (Some (sample_connInfo sample_options)) =
      Inl (Error ''Invalid ConnectionInfo is provided.'')"
    using port_absent_is_invalid[of "sample_connInfo sample_options" sample_options]
    by (simp add: sample_defs)
  have 2: "\<exists>c. new_SqlClusterConnection (Some (sample_connInfo ?os)) = Inr c \<and> port c = JStr ''8443''"
    using port_absent_is_invalid[of "sample_connInfo ?os" ?os]
    by (simp add: sample_defs js_or_def truthy_def)
  have 3: "\<exists>info root.
         emitted (run sample_env [CreateSession ?d, TimerFires] new_provider) = [SessionCreated info]
         \<and> oes_success info \<and> oes_rootNode info = Some root \<and> label root = ''h'' \<and> \<not> isLeaf root"
    using port_absent_is_invalid[of "sample_connInfo sample_options" sample_options,
        THEN conjunct2, THEN conjunct2, rule_format, of sample_env ?d
        "\<lparr>conn_uri = ''objectexplorer://h'', conn_host = ''h''\<rparr>" new_provider] k
    by (simp add: sample_defs new_provider_def)
  from 1 2 3 show ?thesis by blast
qed

text \<open>
  Claim C3, as stated, fails: a \<^verbatim>\<open>createSession\<close> call that is accepted while a session with
  the same key is in the session map gets no \<^verbatim>\<open>onSessionCreated\<close> event at all, so two calls
  for one key fire one event, not one each.
\<close>

theorem sessionCreated_once_per_call_counterexample:
  "timers (run sample_env
      [CreateSession (Some (sample_connInfo sample_options)), TimerFires] new_provider) = []
   \<and> fst (createNewSession sample_env (Some (sample_connInfo sample_options))
        (run sample_env
           [CreateSession (Some (sample_connInfo sample_options)), TimerFires] new_provider))
       = Inr ''objectexplorer://h''
   \<and> emitted (run sample_env
        [CreateSession (Some (sample_connInfo sample_options)), TimerFires]
        (run sample_env
           [CreateSession (Some (sample_connInfo sample_options)), TimerFires] new_provider))
     = emitted (run sample_env
           [CreateSession (Some (sample_connInfo sample_options)), TimerFires] new_provider)
   \<and> length (emitted (run sample_env
        [CreateSession (Some (sample_connInfo sample_options)),
         CreateSession (Some (sample_connInfo sample_options)), TimerFires, TimerFires]
        new_provider)) = 1"
proof -
  let ?k = "\<lparr>conn_uri = ''objectexplorer://h'', conn_host = ''h''\<rparr>"
  have k: "newConnection sample_env (Some (sample_connInfo sample_options)) = Inr ?k"
    by (simp add: sample_defs)
  have absent: "sessionMap new_provider (conn_uri ?k) = None"
    by (simp add: new_provider_def)
  show ?thesis
    using k absent
    by (simp add: createNewSession_accepted createSessionCallback_absent
          createSessionCallback_present new_provider_def)
qed

text \<open>
  Claim C3, amended. A \<^verbatim>\<open>createSession\<close> call fires no event before it returns: an accepted
  call only sets one timer, a rejected call changes nothing. When that timer runs, it
  fires exactly one \<^verbatim>\<open>onSessionCreated\<close> event for the session id if no session with the key
  is in the session map at that time, and it fires no event and changes nothing if one is.
\<close>

theorem sessionCreated_after_return:
  fixes E :: env and s :: provider
  shows "emitted (snd (createNewSession E connInfo s)) = emitted s
   \<and> (\<forall>c. newConnection E connInfo = Inr c \<longrightarrow>
         createNewSession E connInfo s =
           (Inr (conn_uri c), s\<lparr>timers := timers s @ [CreateSessionTimer c]\<rparr>))
   \<and> (\<forall>e. newConnection E connInfo = Inl e \<longrightarrow> createNewSession E connInfo s = (Inl e, s))
   \<and> (\<forall>c (t :: provider). sessionMap t (conn_uri c) = None \<longrightarrow>
         (\<exists>info. oes_sessionId info = conn_uri c \<and>
            emitted (runTimer E (CreateSessionTimer c) t) = emitted t @ [SessionCreated info]))
   \<and> (\<forall>c (t :: provider). sessionMap t (conn_uri c) \<noteq> None \<longrightarrow>
         runTimer E (CreateSessionTimer c) t = t)"
  by (simp add: emitted_createNewSession createNewSession_accepted createNewSession_rejected
        createSessionCallback_present createSessionCallback_absent)

theorem sessionCreated_after_return_witness:
  "emitted (snd (createNewSession sample_env (Some (sample_connInfo sample_options)) new_provider)) = []
   \<and> timers (snd (createNewSession sample_env (Some (sample_connInfo sample_options)) new_provider))
       = [CreateSessionTimer \<lparr>conn_uri = ''objectexplorer://h'', conn_host = ''h''\<rparr>]
   \<and> createNewSession sample_env None new_provider =
        (Inl (Error ''connectionInfo is required''), new_provider)
   \<and> (\<exists>info. oes_sessionId info = ''objectexplorer://h'' \<and>
         emitted (runTimer sample_env
           (CreateSessionTimer \<lparr>conn_uri = ''objectexplorer://h'', conn_host = ''h''\<rparr>) new_provider)
         = [SessionCreated info])
   \<and> runTimer sample_env
        (CreateSessionTimer \<lparr>conn_uri = ''objectexplorer://h'', conn_host = ''h''\<rparr>)
        (runTimer sample_env
           (CreateSessionTimer \<lparr>conn_uri = ''objectexplorer://h'', conn_host = ''h''\<rparr>) new_provider)
      = runTimer sample_env
           (CreateSessionTimer \<lparr>conn_uri = ''objectexplorer://h'', conn_host = ''h''\<rparr>) new_provider"
proof -
  let ?k = "\<lparr>conn_uri = ''objectexplorer://h'', conn_host = ''h''\<rparr>"
  let ?d = "Some (sample_connInfo sample_options)"
  let ?t = "runTimer sample_env (CreateSessionTimer ?k) new_provider"
  note inst = sessionCreated_after_return[of sample_env ?d new_provider]
  note instN = sessionCreated_after_return[of sample_env None new_provider]
  have k: "newConnection sample_env ?d = Inr ?k"
    by (simp add: sample_defs)
  have n: "newConnection sample_env None = Inl (Error ''connectionInfo is required'')"
    by (simp add: sample_defs)
  have absent: "sessionMap new_provider (conn_uri ?k) = None"
    and i: "emitted new_provider = []" "timers new_provider = []"
    by (simp_all add: new_provider_def)
  have present: "sessionMap ?t (conn_uri ?k) \<noteq> None"
    by (simp add: createSessionCallback_absent new_provider_def)
  have 1: "emitted (snd (createNewSession sample_env ?d new_provider)) = []"
    using inst i by simp
  have 2: "timers (snd (createNewSession sample_env ?d new_provider)) = [CreateSessionTimer ?k]"
    using inst k i by simp
  have 3: "createNewSession sample_env None new_provider =
        (Inl (Error ''connectionInfo is required''), new_provider)"
    using instN n by blast
  have 4: "\<exists>info. oes_sessionId info = ''objectexplorer://h'' \<and>
         emitted ?t = [SessionCreated info]"
    using inst[THEN conjunct2, THEN conjunct2, THEN conjunct2, THEN conjunct1, rule_format,
        OF absent] i
    by (simp del: runTimer.simps)
  have 5: "runTimer sample_env (CreateSessionTimer ?k) ?t = ?t"
    using inst present by blast
  from 1 2 3 4 5 show ?thesis by blast
qed




text \<open>
  Claim C1, as stated, fails: \<^verbatim>\<open>expandNode(undefined)\<close> rejects its promise instead of
  resolving it with \<^verbatim>\<open>false\<close>, sets no timer and fires no event.
\<close>

theorem expandNode_undefined_counterexample:
  "expandNode None False new_provider =
     (Inl (Reason ''expandNode requires a nodeInfo object to be passed''), new_provider)
   \<and> fst (expandNode None False new_provider) \<noteq> Inr False
   \<and> timers (snd (expandNode None False new_provider)) = []
   \<and> emitted (run sample_env [ExpandNode None, TimerFires] new_provider) = []"
  by (simp add: expandNode_def new_provider_def)

text \<open>
  Claim C1, amended. For every call \<^verbatim>\<open>expandNode(nodeInfo)\<close> (and \<^verbatim>\<open>refreshNode(nodeInfo)\<close>)
  where \<^verbatim>\<open>nodeInfo\<close> is absent, the returned promise is rejected with the message
  \<^verbatim>\<open>expandNode requires a nodeInfo object to be passed\<close>, and the provider is left as it
  was: no timer is set and no \<^verbatim>\<open>onExpandCompleted\<close> event is fired.
\<close>

theorem expandNode_without_nodeInfo_rejects:
  "expandNode None isRefresh s =
     (Inl (Reason ''expandNode requires a nodeInfo object to be passed''), s)
   \<and> refreshNode None s =
     (Inl (Reason ''expandNode requires a nodeInfo object to be passed''), s)"
  by (simp add: expandNode_def refreshNode_def)

text \<open>
  Claim C5. For every call \<^verbatim>\<open>expandNode(nodeInfo)\<close> where \<^verbatim>\<open>nodeInfo\<close> is present and its
  session id is not a key of the session map, the promise resolves with \<^verbatim>\<open>false\<close>; the call
  fires no event and sets exactly one timer; that timer, whenever it runs, fires exactly
  one \<^verbatim>\<open>onExpandCompleted\<close> event, whose error message says that the session for that uri
  could not be found. On an idle provider the call followed by the timer adds exactly that
  one event.
\<close>

theorem expandNode_unknown_session:
  assumes "sessionMap s (eni_sessionId nodeInfo) = None"
  shows "expandNode (Some nodeInfo) isRefresh s =
           (Inr False, s\<lparr>timers := timers s @ [SessionNotFoundTimer nodeInfo]\<rparr>)
       \<and> runTimer E (SessionNotFoundTimer nodeInfo) t =
           t\<lparr>emitted := emitted t @ [ExpandCompleted
              \<lparr>oei_sessionId = eni_sessionId nodeInfo,
               oei_nodePath = eni_nodePath nodeInfo,
               oei_errorMessage =
                 Some (''Cannot expand object explorer node. Couldn'' @ [CHR 0x27] @
                       ''t find session for uri '' @ eni_sessionId nodeInfo),
               oei_nodes = None\<rparr>]\<rparr>
       \<and> (timers s = [] \<longrightarrow>
            emitted (run E [ExpandNode (Some nodeInfo), TimerFires] s) =
              emitted s @ [ExpandCompleted
                \<lparr>oei_sessionId = eni_sessionId nodeInfo,
                 oei_nodePath = eni_nodePath nodeInfo,
                 oei_errorMessage =
                   Some (''Cannot expand object explorer node. Couldn'' @ [CHR 0x27] @
                         ''t find session for uri '' @ eni_sessionId nodeInfo),
                 oei_nodes = None\<rparr>])"
  using assms
  by (simp add: expandNode_def doExpandNode_def sessionNotFoundCallback_def
        expandCompleteEmitter_fire_def localize_sessionIdNotFound)

theorem expandNode_unknown_session_witness:
  "sessionMap new_provider ''objectexplorer://x'' = None
   \<and> fst (expandNode (Some \<lparr>eni_sessionId = ''objectexplorer://x'', eni_nodePath = ''/''\<rparr>)
        False new_provider) = Inr False
   \<and> emitted (snd (expandNode (Some \<lparr>eni_sessionId = ''objectexplorer://x'', eni_nodePath = ''/''\<rparr>)
        False new_provider)) = []
   \<and> emitted (run sample_env
        [ExpandNode (Some \<lparr>eni_sessionId = ''objectexplorer://x'', eni_nodePath = ''/''\<rparr>),
         TimerFires] new_provider) =
       [ExpandCompleted
          \<lparr>oei_sessionId = ''objectexplorer://x'', oei_nodePath = ''/'',
           oei_errorMessage =
             Some (''Cannot expand object explorer node. Couldn'' @ [CHR 0x27] @
                   ''t find session for uri objectexplorer://x''),
           oei_nodes = None\<rparr>]"
proof -
  have h: "sessionMap new_provider
             (eni_sessionId \<lparr>eni_sessionId = ''objectexplorer://x'', eni_nodePath = ''/''\<rparr>) = None"
    by (simp add: new_provider_def)
  have i: "timers new_provider = []" "emitted new_provider = []"
    by (simp_all add: new_provider_def)
  show ?thesis
    using expandNode_unknown_session[OF h, of False sample_env new_provider] i h
    by (simp del: run.simps step.simps)
qed

text \<open>
  Claim C8. \<^verbatim>\<open>closeSession(sessionId)\<close> reports success exactly when the session id was a
  key of the session map at the call; the response carries the session id; the key is
  absent from the map afterwards; and closing the same id again reports no success.
\<close>

theorem closeSession_success_iff_registered:
  "csr_success (fst (closeSession sessionId s)) = (sessionId \<in> dom (sessionMap s))
   \<and> csr_sessionId (fst (closeSession sessionId s)) = sessionId
   \<and> sessionMap (snd (closeSession sessionId s)) sessionId = None
   \<and> csr_success (fst (closeSession sessionId (snd (closeSession sessionId s)))) = False"
  by (auto simp: closeSession_def Let_def)


section \<open>Properties of the root node\<close>

lemma getChildren_rebuild:
  "refreshChildren \<or> rn_children this = None \<Longrightarrow>
    RootNode_getChildren refreshChildren this n =
      (let arr = \<lparr>arr_ref = n, arr_items = [\<lparr>cn_ref = n + 1, cn_label = ''HDFS'',
           cn_fileSource = rn_session this, cn_parent = Some (rn_ref this)\<rparr>]\<rparr>
       in (Some arr, this\<lparr>rn_children := Some arr\<rparr>, n + 2))"
  by (auto simp: RootNode_getChildren_def RootNode_createHdfsFileSource_def Let_def)

lemma getChildren_cached:
  "rn_children this = Some cached \<Longrightarrow> RootNode_getChildren False this n = (Some cached, this, n)"
  by (simp add: RootNode_getChildren_def)

lemma getChildren_again:
  assumes "RootNode_getChildren False this n = (Some arr, this', n')"
  shows "((\<lambda>(r, t, m). RootNode_getChildren False t m) ^^ k) (Some arr, this', n') =
           (Some arr, this', n')"
proof -
  from assms have "rn_children this' = Some arr"
    by (auto simp: RootNode_getChildren_def Let_def split: if_splits)
  then have again: "RootNode_getChildren False this' n' = (Some arr, this', n')"
    by (rule getChildren_cached)
  show ?thesis
    by (induction k) (simp_all add: again)
qed


text \<open>
  Claim C6. On a root node without children the first \<^verbatim>\<open>getChildren(false)\<close> builds exactly one
  child, the node labelled \<^verbatim>\<open>HDFS\<close> whose parent is the root and whose file source comes from
  the session's connection. Any number of further \<^verbatim>\<open>getChildren(false)\<close> calls return what the
  first returned and leave the node and the allocation counter as they are: on a node with
  cached children the call returns the cached array itself, nothing is allocated.
  \<^verbatim>\<open>getChildren(true)\<close> always builds a new array with one new child, whose references
  differ from those of the cached array and its items.
\<close>

theorem rootNode_getChildren_cache:
  "(rn_children this = None \<longrightarrow>
      (\<exists>arr node. RootNode_getChildren False this n = (Some arr, this\<lparr>rn_children := Some arr\<rparr>, n + 2)
         \<and> arr_items arr = [node] \<and> cn_label node = ''HDFS'' \<and> cn_parent node = Some (rn_ref this)
         \<and> cn_fileSource node = rn_session this))
   \<and> (\<forall>k. ((\<lambda>(r, t, m). RootNode_getChildren False t m) ^^ k) (RootNode_getChildren False this n)
            = RootNode_getChildren False this n)
   \<and> (\<forall>cached. rn_children this = Some cached \<longrightarrow>
         RootNode_getChildren False this n = (Some cached, this, n))
   \<and> (\<exists>arr node. RootNode_getChildren True this n = (Some arr, this\<lparr>rn_children := Some arr\<rparr>, n + 2)
         \<and> arr_ref arr = n \<and> arr_items arr = [node] \<and> cn_ref node = n + 1
         \<and> cn_label node = ''HDFS'' \<and> cn_parent node = Some (rn_ref this)
         \<and> (\<forall>cached. rn_children this = Some cached \<and> arr_ref cached < n \<and>
               (\<forall>c \<in> set (arr_items cached). cn_ref c < n) \<longrightarrow>
               arr_ref arr \<noteq> arr_ref cached \<and> cn_ref node \<notin> cn_ref ` set (arr_items cached)))"
proof (intro conjI allI)
  show "rn_children this = None \<longrightarrow>
      (\<exists>arr node. RootNode_getChildren False this n = (Some arr, this\<lparr>rn_children := Some arr\<rparr>, n + 2)
         \<and> arr_items arr = [node] \<and> cn_label node = ''HDFS'' \<and> cn_parent node = Some (rn_ref this)
         \<and> cn_fileSource node = rn_session this)"
    by (simp add: getChildren_rebuild Let_def)
next
  fix k
  obtain arr this' n' where r: "RootNode_getChildren False this n = (Some arr, this', n')"
    by (cases "rn_children this") (auto simp: getChildren_rebuild getChildren_cached Let_def)
  show "((\<lambda>(r, t, m). RootNode_getChildren False t m) ^^ k) (RootNode_getChildren False this n)
            = RootNode_getChildren False this n"
    unfolding r using r by (rule getChildren_again)
next
  fix cached
  show "rn_children this = Some cached \<longrightarrow>
         RootNode_getChildren False this n = (Some cached, this, n)"
    by (simp add: getChildren_cached)
next
  show "\<exists>arr node. RootNode_getChildren True this n = (Some arr, this\<lparr>rn_children := Some arr\<rparr>, n + 2)
         \<and> arr_ref arr = n \<and> arr_items arr = [node] \<and> cn_ref node = n + 1
         \<and> cn_label node = ''HDFS'' \<and> cn_parent node = Some (rn_ref this)
         \<and> (\<forall>cached. rn_children this = Some cached \<and> arr_ref cached < n \<and>
               (\<forall>c \<in> set (arr_items cached). cn_ref c < n) \<longrightarrow>
               arr_ref arr \<noteq> arr_ref cached \<and> cn_ref node \<notin> cn_ref ` set (arr_items cached))"
    by (force simp: getChildren_rebuild Let_def)
qed

theorem rootNode_getChildren_cache_witness:
  "\<exists>arr this'.
      rn_children sample_root = None
    \<and> RootNode_getChildren False sample_root 1 = (Some arr, this', 3)
    \<and> length (arr_items arr) = 1
    \<and> rn_children this' = Some arr
    \<and> RootNode_getChildren False this' 3 = (Some arr, this', 3)
    \<and> (\<exists>arr' node'. RootNode_getChildren True this' 3 = (Some arr', this'\<lparr>rn_children := Some arr'\<rparr>, 5)
          \<and> arr_items arr' = [node'] \<and> arr_ref arr' \<noteq> arr_ref arr
          \<and> cn_ref node' \<notin> cn_ref ` set (arr_items arr))"
proof -
  have none: "rn_children sample_root = None"
    by (simp add: sample_root_def)
  from rootNode_getChildren_cache[of sample_root 1, THEN conjunct1, rule_format, OF none]
  obtain arr node where
    first: "RootNode_getChildren False sample_root 1 =
              (Some arr, sample_root\<lparr>rn_children := Some arr\<rparr>, 3)"
    and items: "arr_items arr = [node]"
    by auto
  let ?this' = "sample_root\<lparr>rn_children := Some arr\<rparr>"
  have refs: "arr_ref arr = 1" "cn_ref node = 2"
    using first items by (auto simp: getChildren_rebuild none Let_def)
  have cached: "rn_children ?this' = Some arr"
    by simp
  have second: "RootNode_getChildren False ?this' 3 = (Some arr, ?this', 3)"
    using rootNode_getChildren_cache[of ?this' 3, THEN conjunct2, THEN conjunct2, THEN conjunct1,
      rule_format, OF cached] .
  from rootNode_getChildren_cache[of ?this' 3, THEN conjunct2, THEN conjunct2, THEN conjunct2]
  obtain arr' node' where
    third: "RootNode_getChildren True ?this' 3 = (Some arr', ?this'\<lparr>rn_children := Some arr'\<rparr>, 3 + 2)"
    and items': "arr_items arr' = [node']"
    and distinct: "\<forall>cached. rn_children ?this' = Some cached \<and> arr_ref cached < 3 \<and>
               (\<forall>c \<in> set (arr_items cached). cn_ref c < 3) \<longrightarrow>
               arr_ref arr' \<noteq> arr_ref cached \<and> cn_ref node' \<notin> cn_ref ` set (arr_items cached)"
    by blast
  from distinct[rule_format, of arr] refs items
  have d: "arr_ref arr' \<noteq> arr_ref arr \<and> cn_ref node' \<notin> cn_ref ` set (arr_items arr)"
    by simp
  from none first items cached second third items' d show ?thesis
    by (intro exI[of _ arr] exI[of _ ?this']) auto
qed


section \<open>Properties of the lookup\<close>

lemma findIndex_negative: "findIndex P xs < 0 \<longleftrightarrow> (\<forall>x \<in> set xs. \<not> P x)"
  by (induction xs) (auto simp: Let_def)

text \<open>With every prerequisite there, the lookup builds the cluster connection.\<close>

lemma lookUp_complete_example:
  "lookUpSqlClusterInfo sample_constants
     (sample_api (Some [\<lparr>serviceName = ''gateway'', ipAddress = ''10.0.0.1'', ep_port = 30443\<rparr>])
        (Some [''password'' \<mapsto> JStr ''p''])) ''u''
     (Some (sample_sql_connection (JStr ''c1'')))
   = Inr (Some \<lparr>providerName = JStr ''mssqlCluster'', id_prop = Some (JStr ''u''),
                 connectionId = JStr ''u'',
                 options = Some [hostPropName \<mapsto> JStr ''10.0.0.1'', knoxPortPropName \<mapsto> JNum 30443,
                                 userPropName \<mapsto> JStr ''root'', passwordPropName \<mapsto> JStr ''p''],
                 serverName = JStr ''10.0.0.1,30443'', userName = JStr ''root'',
                 password = JStr ''p''\<rparr>)"
  by (simp add: lookUpSqlClusterInfo_def createSqlClusterConnectionParam_def
        connToConnectionParam_def sample_constants_def sample_api_def sample_sql_connection_def
        truthy_def opt_get_def js_string_def prop_names show_nat.simps Let_def)

text \<open>
  Claim C10, as stated, fails for an input whose provider already is the cluster provider:
  the lookup converts it without asking for any prerequisite. Such an input without a
  connection id resolves to a connection parameter, not to \<^verbatim>\<open>undefined\<close>, and when it has no
  options either the promise is rejected with a \<^verbatim>\<open>TypeError\<close>.
\<close>

theorem lookUp_cluster_provider_counterexample:
  "lookUpSqlClusterInfo sample_constants (sample_api None None) ''u''
     (Some \<lparr>providerName = JStr ''mssqlCluster'', id_prop = None, connectionId = JUndefined,
            options = Some Map.empty, serverName = JUndefined, userName = JUndefined,
            password = JUndefined\<rparr>)
   = Inr (Some \<lparr>providerName = JStr ''mssqlCluster'', id_prop = Some JUndefined,
                 connectionId = JUndefined, options = Some Map.empty,
                 serverName = JStr ''undefined,undefined'', userName = JUndefined,
                 password = JUndefined\<rparr>)
   \<and> lookUpSqlClusterInfo sample_constants (sample_api None None) ''u''
     (Some \<lparr>providerName = JStr ''mssqlCluster'', id_prop = None, connectionId = JUndefined,
            options = None, serverName = JUndefined, userName = JUndefined,
            password = JUndefined\<rparr>)
   = Inl TypeError"
  by (simp add: lookUpSqlClusterInfo_def connToConnectionParam_def sample_constants_def
        opt_get_def js_string_def)

text \<open>
  Claim C10, amended. \<^verbatim>\<open>lookUpSqlClusterInfo\<close> resolves to \<^verbatim>\<open>undefined\<close>, and does not throw, for
  the absent input and for every input whose provider name is not the cluster provider's
  whenever a prerequisite is missing: the input carries no connection id, the server info
  or its options are missing, the endpoints list is missing, empty or without the Knox
  gateway endpoint, or the credentials lookup returns nothing.
\<close>

theorem lookUp_missing_prerequisite:
  "lookUpSqlClusterInfo K api uuid None = Inr None
   \<and> (providerName ob \<noteq> JStr (mssqlClusterProviderName K) \<longrightarrow>
        (let connId = (case id_prop ob of Some i \<Rightarrow> i | None \<Rightarrow> connectionId ob) in
           \<not> truthy connId
           \<or> getServerInfo api connId = None
           \<or> (\<exists>si. getServerInfo api connId = Some si \<and> si_options si = None)
           \<or> (\<exists>si so. getServerInfo api connId = Some si \<and> si_options si = Some so \<and>
                 (so (clusterEndpointsProperty K) = None
                  \<or> so (clusterEndpointsProperty K) = Some []
                  \<or> (\<exists>eps. so (clusterEndpointsProperty K) = Some eps \<and>
                        hadoopKnoxEndpointName K \<notin> serviceName ` set eps)))
           \<or> getCredentials api connId = None) \<longrightarrow>
        lookUpSqlClusterInfo K api uuid (Some ob) = Inr None)"
  by (cases "id_prop ob")
     (auto simp: lookUpSqlClusterInfo_def createSqlClusterConnectionParam_def Let_def
        findIndex_negative image_iff split: option.splits)

theorem lookUp_missing_prerequisite_witness:
  "lookUpSqlClusterInfo sample_constants (sample_api None None) ''u'' None = Inr None
   \<and> lookUpSqlClusterInfo sample_constants
        (sample_api (Some [\<lparr>serviceName = ''gateway'', ipAddress = ''10.0.0.1'', ep_port = 30443\<rparr>])
           (Some [''password'' \<mapsto> JStr ''p''])) ''u''
        (Some (sample_sql_connection (JStr []))) = Inr None
   \<and> lookUpSqlClusterInfo sample_constants
        (sample_api (Some [\<lparr>serviceName = ''gateway'', ipAddress = ''10.0.0.1'', ep_port = 30443\<rparr>])
           (Some [''password'' \<mapsto> JStr ''p''])) ''u''
        (Some (sample_sql_connection (JStr ''c2''))) = Inr None
   \<and> lookUpSqlClusterInfo sample_constants
        (sample_api None (Some [''password'' \<mapsto> JStr ''p''])) ''u''
        (Some (sample_sql_connection (JStr ''c1''))) = Inr None
   \<and> lookUpSqlClusterInfo sample_constants
        (sample_api (Some []) (Some [''password'' \<mapsto> JStr ''p''])) ''u''
        (Some (sample_sql_connection (JStr ''c1''))) = Inr None
   \<and> lookUpSqlClusterInfo sample_constants
        (sample_api (Some [\<lparr>serviceName = ''livy'', ipAddress = ''10.0.0.1'', ep_port = 30443\<rparr>])
           (Some [''password'' \<mapsto> JStr ''p''])) ''u''
        (Some (sample_sql_connection (JStr ''c1''))) = Inr None
   \<and> lookUpSqlClusterInfo sample_constants
        (sample_api (Some [\<lparr>serviceName = ''gateway'', ipAddress = ''10.0.0.1'', ep_port = 30443\<rparr>])
           None) ''u''
        (Some (sample_sql_connection (JStr ''c1''))) = Inr None
   \<and> lookUpSqlClusterInfo sample_constants
        \<lparr>getServerInfo = (\<lambda>connId. Some \<lparr>si_options = None\<rparr>),
         getCredentials = (\<lambda>connId. Some [''password'' \<mapsto> JStr ''p''])\<rparr> ''u''
        (Some (sample_sql_connection (JStr ''c1''))) = Inr None"
proof -
  let ?gw = "Some [\<lparr>serviceName = ''gateway'', ipAddress = ''10.0.0.1'', ep_port = 30443\<rparr>]"
  let ?pw = "Some [''password'' \<mapsto> JStr ''p'']"
  have 0: "lookUpSqlClusterInfo sample_constants (sample_api None None) ''u'' None = Inr None"
    using lookUp_missing_prerequisite[of sample_constants "sample_api None None" "''u''"]
    by blast
  have 1: "lookUpSqlClusterInfo sample_constants (sample_api ?gw ?pw) ''u''
        (Some (sample_sql_connection (JStr []))) = Inr None"
    using lookUp_missing_prerequisite[of sample_constants "sample_api ?gw ?pw" "''u''"
        "sample_sql_connection (JStr [])"]
    by (simp add: sample_constants_def sample_sql_connection_def truthy_def)
  have 2: "lookUpSqlClusterInfo sample_constants (sample_api ?gw ?pw) ''u''
        (Some (sample_sql_connection (JStr ''c2''))) = Inr None"
    using lookUp_missing_prerequisite[of sample_constants "sample_api ?gw ?pw" "''u''"
        "sample_sql_connection (JStr ''c2'')"]
    by (simp add: sample_constants_def sample_sql_connection_def sample_api_def)
  have 3: "lookUpSqlClusterInfo sample_constants (sample_api None ?pw) ''u''
        (Some (sample_sql_connection (JStr ''c1''))) = Inr None"
    using lookUp_missing_prerequisite[of sample_constants "sample_api None ?pw" "''u''"
        "sample_sql_connection (JStr ''c1'')"]
    by (simp add: sample_constants_def sample_sql_connection_def sample_api_def)
  have 4: "lookUpSqlClusterInfo sample_constants (sample_api (Some []) ?pw) ''u''
        (Some (sample_sql_connection (JStr ''c1''))) = Inr None"
    using lookUp_missing_prerequisite[of sample_constants "sample_api (Some []) ?pw" "''u''"
        "sample_sql_connection (JStr ''c1'')"]
    by (simp add: sample_constants_def sample_sql_connection_def sample_api_def)
  have 5: "lookUpSqlClusterInfo sample_constants
        (sample_api (Some [\<lparr>serviceName = ''livy'', ipAddress = ''10.0.0.1'', ep_port = 30443\<rparr>]) ?pw)
        ''u'' (Some (sample_sql_connection (JStr ''c1''))) = Inr None"
    using lookUp_missing_prerequisite[of sample_constants
        "sample_api (Some [\<lparr>serviceName = ''livy'', ipAddress = ''10.0.0.1'', ep_port = 30443\<rparr>]) ?pw"
        "''u''" "sample_sql_connection (JStr ''c1'')"]
    by (simp add: sample_constants_def sample_sql_connection_def sample_api_def)
  have 6: "lookUpSqlClusterInfo sample_constants (sample_api ?gw None) ''u''
        (Some (sample_sql_connection (JStr ''c1''))) = Inr None"
    using lookUp_missing_prerequisite[of sample_constants "sample_api ?gw None" "''u''"
        "sample_sql_connection (JStr ''c1'')"]
    by (simp add: sample_constants_def sample_sql_connection_def sample_api_def)
  have 7: "lookUpSqlClusterInfo sample_constants
        \<lparr>getServerInfo = (\<lambda>connId. Some \<lparr>si_options = None\<rparr>),
         getCredentials = (\<lambda>connId. Some [''password'' \<mapsto> JStr ''p''])\<rparr> ''u''
        (Some (sample_sql_connection (JStr ''c1''))) = Inr None"
    using lookUp_missing_prerequisite[of sample_constants
        "\<lparr>getServerInfo = (\<lambda>connId. Some \<lparr>si_options = None\<rparr>),
          getCredentials = (\<lambda>connId. Some [''password'' \<mapsto> JStr ''p''])\<rparr>"
        "''u''" "sample_sql_connection (JStr ''c1'')"]
    by (simp add: sample_constants_def sample_sql_connection_def)
  from 0 1 2 3 4 5 6 7 show ?thesis by blast
qed

end
